theory Spec2Isabelle
  imports Complex_Main
begin

section \<open>Python values, dictionaries and exceptions\<close>

text \<open>
  The plugins pass untyped dictionaries around. A Python value is modelled by
  \<open>pyval\<close>; a dictionary is an association list read with \<open>map_of\<close> (the first
  binding of a key is the one a lookup sees). A Python \<open>float\<close> is modelled as
  a real number: the code only stores floats, passes them on and tests them
  for truthiness, it never computes with them. \<open>PType\<close> is a type object such
  as \<open>str\<close>, which the plugins put into their schemas.
\<close>

datatype pyval =
    PNone
  | PBool bool
  | PInt int
  | PFloat real
  | PStr string
  | PList "pyval list"
  | PDict "(string \<times> pyval) list"
  | PType string

type_synonym pydict = "(string \<times> pyval) list"

text \<open>Python truthiness, as used by \<open>if not x\<close> and \<open>x or y\<close>.\<close>

fun truthy :: "pyval \<Rightarrow> bool" where
  "truthy PNone = False"
| "truthy (PBool b) = b"
| "truthy (PInt i) = (i \<noteq> 0)"
| "truthy (PFloat r) = (r \<noteq> 0)"
| "truthy (PStr s) = (s \<noteq> [])"
| "truthy (PList xs) = (xs \<noteq> [])"
| "truthy (PDict kvs) = (kvs \<noteq> [])"
| "truthy (PType n) = True"

text \<open>\<open>d.get(k)\<close> and \<open>d.get(k, default)\<close>.\<close>

definition dict_get :: "pydict \<Rightarrow> string \<Rightarrow> pyval" where
  "dict_get d k = (case map_of d k of None \<Rightarrow> PNone | Some v \<Rightarrow> v)"

definition dict_get_default :: "pydict \<Rightarrow> string \<Rightarrow> pyval \<Rightarrow> pyval" where
  "dict_get_default d k dflt = (case map_of d k of None \<Rightarrow> dflt | Some v \<Rightarrow> v)"

text \<open>\<open>a or b\<close> on values.\<close>

definition py_or :: "pyval \<Rightarrow> pyval \<Rightarrow> pyval" where
  "py_or a b = (if truthy a then a else b)"

datatype exn =
    ValueError string
  | ImportError string
  | AttributeError string
  | IndexError string
  | TypeError string
  | HTTPError int
  | OtherError string

text \<open>Truthiness of an \<open>Optional[str]\<close>, \<open>Optional[int]\<close> and \<open>Optional[float]\<close>.\<close>

definition truthy_str :: "string option \<Rightarrow> bool" where
  "truthy_str s = (case s of None \<Rightarrow> False | Some t \<Rightarrow> t \<noteq> [])"

definition or_int :: "int option \<Rightarrow> int \<Rightarrow> int" where
  "or_int x dflt = (case x of None \<Rightarrow> dflt | Some v \<Rightarrow> if v = 0 then dflt else v)"

definition or_float :: "real option \<Rightarrow> real \<Rightarrow> real" where
  "or_float x dflt = (case x of None \<Rightarrow> dflt | Some v \<Rightarrow> if v = 0 then dflt else v)"

definition or_str :: "string option \<Rightarrow> string option \<Rightarrow> string option" where
  "or_str a b = (if truthy_str a then a else b)"

section \<open>The AI helper (ai\_helper.py)\<close>

text \<open>
  The object state of \<open>AIHelper\<close>. The three \<open>_client\<close> fields record whether the
  lazily built vendor client exists (\<open>is not None\<close>); the handle itself is opaque.
  Logging is not modelled.
\<close>

record ai_helper =
  gemini_api_key :: "string option"
  chatgpt_api_key :: "string option"
  azure_openai_api_key :: "string option"
  azure_openai_endpoint :: "string option"
  azure_openai_deployment :: "string option"
  azure_openai_api_version :: "string option"
  default_provider :: string
  gemini_model :: string
  chatgpt_model :: string
  azure_openai_model :: "string option"
  max_tokens :: int
  temperature :: real
  gemini_client :: bool
  chatgpt_client :: bool
  azure_openai_client :: bool

definition AIHelper_init ::
  "string option \<Rightarrow> string option \<Rightarrow> string option \<Rightarrow> string option \<Rightarrow> string option \<Rightarrow>
   string option \<Rightarrow> string \<Rightarrow> string \<Rightarrow> string \<Rightarrow> string option \<Rightarrow> int \<Rightarrow> real \<Rightarrow> ai_helper" where
  "AIHelper_init gkey ckey akey aend adep aver dflt gmodel cmodel amodel mt temp =
     \<lparr> gemini_api_key = gkey,
       chatgpt_api_key = ckey,
       azure_openai_api_key = akey,
       azure_openai_endpoint = aend,
       azure_openai_deployment = adep,
       azure_openai_api_version = or_str aver (Some ''2024-02-15-preview''),
       default_provider = dflt,
       gemini_model = gmodel,
       chatgpt_model = cmodel,
       azure_openai_model = or_str amodel adep,
       max_tokens = mt,
       temperature = temp,
       gemini_client = False,
       chatgpt_client = False,
       azure_openai_client = False \<rparr>"

text \<open>\<open>_select_best_provider\<close>: the default first, then the fixed fallback order.\<close>

definition select_best_provider :: "ai_helper \<Rightarrow> exn + string" where
  "select_best_provider h =
     (if default_provider h = ''gemini'' \<and> truthy_str (gemini_api_key h) then Inr ''gemini''
      else if default_provider h = ''chatgpt'' \<and> truthy_str (chatgpt_api_key h) then Inr ''chatgpt''
      else if default_provider h = ''azure'' \<and> truthy_str (azure_openai_api_key h) then Inr ''azure''
      else if truthy_str (gemini_api_key h) then Inr ''gemini''
      else if truthy_str (chatgpt_api_key h) then Inr ''chatgpt''
      else if truthy_str (azure_openai_api_key h) then Inr ''azure''
      else Inl (ValueError ''No AI provider API keys configured''))"

subsection \<open>The vendor SDKs\<close>

text \<open>
  The vendor SDKs are outside the repository. Every call the helper makes into
  them is an \<open>sdk_call\<close>; a backend returns the calls it made, in order, next
  to its result, so that "no provider was contacted" is the empty list.
  Chat messages are (role, content) pairs.
\<close>

datatype sdk_call =
    GenaiConfigure string
  | GenerativeModel string
  | GenerateContent string int real
  | OpenAI string
  | AzureOpenAI string "string option" string
  | OpenAIChatCreate string "(string \<times> string) list" int real
  | AzureChatCreate string "(string \<times> string) list" int real

text \<open>
  An attribute read guarded by \<open>hasattr\<close>: the attribute may be absent, present
  but \<open>None\<close> (reading a field of it raises \<open>AttributeError\<close>), or present.
\<close>

datatype 'a attr = NoAttr | AttrNone | Attr 'a

text \<open>
  What the helper reads of a vendor response: Gemini's \<open>response.text\<close>
  (a property that can raise) and \<open>usage_metadata.total_token_count\<close>; for the
  chat APIs the \<open>message.content\<close> of every choice (it can be \<open>None\<close>) and
  \<open>usage.total_tokens\<close>.
\<close>

record gemini_response =
  g_text :: "exn + string"
  g_usage_metadata :: "int attr"

record chat_response =
  c_choices :: "string option list"
  c_usage :: "int attr"

text \<open>
  The environment: whether the two packages import, whether a configuration or
  constructor call raises, and what the generation calls return or raise.
\<close>

record sdk_env =
  genai_import :: "exn option"
  openai_import :: "exn option"
  sdk_setup :: "sdk_call \<Rightarrow> exn option"
  generate_content :: "string \<Rightarrow> int \<Rightarrow> real \<Rightarrow> exn + gemini_response"
  openai_create :: "string \<Rightarrow> (string \<times> string) list \<Rightarrow> int \<Rightarrow> real \<Rightarrow> exn + chat_response"
  azure_create :: "string \<Rightarrow> (string \<times> string) list \<Rightarrow> int \<Rightarrow> real \<Rightarrow> exn + chat_response"

type_synonym ai_result = "(exn + pydict) \<times> ai_helper \<times> sdk_call list"

text \<open>
  The \<open>except\<close> clauses of the three backends: an \<open>ImportError\<close> raised inside
  the \<open>try\<close> is replaced by the installation hint, anything else is re-raised.
\<close>

definition gemini_except :: "exn \<Rightarrow> exn" where
  "gemini_except e =
     (case e of
        ImportError m \<Rightarrow> ImportError ''google-generativeai package not installed. Install with: pip install google-generativeai''
      | _ \<Rightarrow> e)"

definition openai_except :: "exn \<Rightarrow> exn" where
  "openai_except e =
     (case e of
        ImportError m \<Rightarrow> ImportError ''openai package not installed. Install with: pip install openai''
      | _ \<Rightarrow> e)"

text \<open>\<open>x.total_tokens if hasattr(response, 'usage') else 0\<close>.\<close>

definition tokens_used_of :: "int attr \<Rightarrow> exn + int" where
  "tokens_used_of u =
     (case u of
        NoAttr \<Rightarrow> Inr 0
      | AttrNone \<Rightarrow> Inl (AttributeError ''NoneType object has no attribute'')
      | Attr n \<Rightarrow> Inr n)"

text \<open>\<open>response.choices[0].message.content\<close>.\<close>

definition first_content :: "string option list \<Rightarrow> exn + pyval" where
  "first_content cs =
     (case cs of
        [] \<Rightarrow> Inl (IndexError ''list index out of range'')
      | c # _ \<Rightarrow> Inr (case c of None \<Rightarrow> PNone | Some t \<Rightarrow> PStr t))"

text \<open>The message list of the two chat backends.\<close>

definition build_messages :: "string \<Rightarrow> string option \<Rightarrow> (string \<times> string) list" where
  "build_messages prompt system_prompt =
     (case system_prompt of
        None \<Rightarrow> []
      | Some s \<Rightarrow> if s = [] then [] else [(''system'', s)])
     @ [(''user'', prompt)]"

text \<open>The common result dictionary, its entries evaluated in source order.\<close>

definition result_dict :: "exn + pyval \<Rightarrow> string \<Rightarrow> pyval \<Rightarrow> int attr \<Rightarrow> exn + pydict" where
  "result_dict txt prov model usage =
     (case txt of
        Inl e \<Rightarrow> Inl e
      | Inr t \<Rightarrow>
          (case tokens_used_of usage of
             Inl e \<Rightarrow> Inl e
           | Inr n \<Rightarrow>
               Inr [(''text'', t), (''provider'', PStr prov), (''model'', model),
                    (''tokens_used'', PInt n)]))"

text \<open>
  Each backend is a credential check followed by a \<open>try\<close> block. The block is a
  function of its own (\<open>_try\<close>) that returns the exception as raised; the
  backend maps it through its \<open>except\<close> clauses with \<open>reraise\<close>.
\<close>

definition reraise :: "(exn \<Rightarrow> exn) \<Rightarrow> ai_result \<Rightarrow> ai_result" where
  "reraise f r = (case r of (Inl e, h, cs) \<Rightarrow> (Inl (f e), h, cs) | (Inr v, h, cs) \<Rightarrow> (Inr v, h, cs))"

text \<open>\<open>if self._gemini_client is None: ...\<close> and its two siblings.\<close>

definition gemini_client_init ::
  "sdk_env \<Rightarrow> ai_helper \<Rightarrow> string \<Rightarrow> exn option \<times> ai_helper \<times> sdk_call list" where
  "gemini_client_init env h key =
     (if gemini_client h then (None, h, [])
      else
        (case sdk_setup env (GenaiConfigure key) of
           Some e \<Rightarrow> (Some e, h, [GenaiConfigure key])
         | None \<Rightarrow>
             (case sdk_setup env (GenerativeModel (gemini_model h)) of
                Some e \<Rightarrow> (Some e, h, [GenaiConfigure key, GenerativeModel (gemini_model h)])
              | None \<Rightarrow>
                  (None, h\<lparr>gemini_client := True\<rparr>,
                   [GenaiConfigure key, GenerativeModel (gemini_model h)]))))"

definition chatgpt_client_init ::
  "sdk_env \<Rightarrow> ai_helper \<Rightarrow> string \<Rightarrow> exn option \<times> ai_helper \<times> sdk_call list" where
  "chatgpt_client_init env h key =
     (if chatgpt_client h then (None, h, [])
      else
        (case sdk_setup env (OpenAI key) of
           Some e \<Rightarrow> (Some e, h, [OpenAI key])
         | None \<Rightarrow> (None, h\<lparr>chatgpt_client := True\<rparr>, [OpenAI key])))"

definition azure_client_init ::
  "sdk_env \<Rightarrow> ai_helper \<Rightarrow> string \<Rightarrow> string \<Rightarrow> exn option \<times> ai_helper \<times> sdk_call list" where
  "azure_client_init env h key endpoint =
     (if azure_openai_client h then (None, h, [])
      else
        (case sdk_setup env (AzureOpenAI key (azure_openai_api_version h) endpoint) of
           Some e \<Rightarrow> (Some e, h, [AzureOpenAI key (azure_openai_api_version h) endpoint])
         | None \<Rightarrow>
             (None, h\<lparr>azure_openai_client := True\<rparr>,
              [AzureOpenAI key (azure_openai_api_version h) endpoint])))"

text \<open>\<open>full_prompt\<close> of the Gemini backend.\<close>

definition gemini_full_prompt :: "string \<Rightarrow> string option \<Rightarrow> string" where
  "gemini_full_prompt prompt system_prompt =
     (case system_prompt of
        None \<Rightarrow> prompt
      | Some s \<Rightarrow> if s = [] then prompt else s @ ''\<newline>\<newline>'' @ prompt)"

definition gemini_try ::
  "sdk_env \<Rightarrow> ai_helper \<Rightarrow> string \<Rightarrow> string \<Rightarrow> string option \<Rightarrow> int \<Rightarrow> real \<Rightarrow> ai_result" where
  "gemini_try env h key prompt system_prompt mt temp =
     (case genai_import env of
        Some e \<Rightarrow> (Inl e, h, [])
      | None \<Rightarrow>
          (case gemini_client_init env h key of
             (Some e, h1, cs) \<Rightarrow> (Inl e, h1, cs)
           | (None, h1, cs) \<Rightarrow>
               (case generate_content env (gemini_full_prompt prompt system_prompt) mt temp of
                  Inl e \<Rightarrow>
                    (Inl e, h1, cs @ [GenerateContent (gemini_full_prompt prompt system_prompt) mt temp])
                | Inr response \<Rightarrow>
                    (result_dict (map_sum id PStr (g_text response)) ''gemini''
                       (PStr (gemini_model h1)) (g_usage_metadata response),
                     h1, cs @ [GenerateContent (gemini_full_prompt prompt system_prompt) mt temp]))))"

definition query_gemini ::
  "sdk_env \<Rightarrow> ai_helper \<Rightarrow> string \<Rightarrow> string option \<Rightarrow> int \<Rightarrow> real \<Rightarrow> ai_result" where
  "query_gemini env h prompt system_prompt mt temp =
     (case gemini_api_key h of
        None \<Rightarrow> (Inl (ValueError ''Gemini API key not configured''), h, [])
      | Some key \<Rightarrow>
          if key = [] then (Inl (ValueError ''Gemini API key not configured''), h, [])
          else reraise gemini_except (gemini_try env h key prompt system_prompt mt temp))"

definition chatgpt_try ::
  "sdk_env \<Rightarrow> ai_helper \<Rightarrow> string \<Rightarrow> string \<Rightarrow> string option \<Rightarrow> int \<Rightarrow> real \<Rightarrow> ai_result" where
  "chatgpt_try env h key prompt system_prompt mt temp =
     (case openai_import env of
        Some e \<Rightarrow> (Inl e, h, [])
      | None \<Rightarrow>
          (case chatgpt_client_init env h key of
             (Some e, h1, cs) \<Rightarrow> (Inl e, h1, cs)
           | (None, h1, cs) \<Rightarrow>
               (case openai_create env (chatgpt_model h1) (build_messages prompt system_prompt) mt temp of
                  Inl e \<Rightarrow>
                    (Inl e, h1,
                     cs @ [OpenAIChatCreate (chatgpt_model h1) (build_messages prompt system_prompt) mt temp])
                | Inr response \<Rightarrow>
                    (result_dict (first_content (c_choices response)) ''chatgpt''
                       (PStr (chatgpt_model h1)) (c_usage response),
                     h1,
                     cs @ [OpenAIChatCreate (chatgpt_model h1) (build_messages prompt system_prompt) mt temp]))))"

definition query_chatgpt ::
  "sdk_env \<Rightarrow> ai_helper \<Rightarrow> string \<Rightarrow> string option \<Rightarrow> int \<Rightarrow> real \<Rightarrow> ai_result" where
  "query_chatgpt env h prompt system_prompt mt temp =
     (case chatgpt_api_key h of
        None \<Rightarrow> (Inl (ValueError ''ChatGPT API key not configured''), h, [])
      | Some key \<Rightarrow>
          if key = [] then (Inl (ValueError ''ChatGPT API key not configured''), h, [])
          else reraise openai_except (chatgpt_try env h key prompt system_prompt mt temp))"

text \<open>
  The Azure backend needs three settings and calls the deployment by name. Its
  \<open>model\<close> entry is \<open>self.azure_openai_model or self.azure_openai_deployment\<close>.
\<close>

definition azure_model_entry :: "ai_helper \<Rightarrow> pyval" where
  "azure_model_entry h =
     (case or_str (azure_openai_model h) (azure_openai_deployment h) of
        None \<Rightarrow> PNone
      | Some m \<Rightarrow> PStr m)"

definition azure_try ::
  "sdk_env \<Rightarrow> ai_helper \<Rightarrow> string \<Rightarrow> string \<Rightarrow> string \<Rightarrow> string \<Rightarrow> string option \<Rightarrow> int \<Rightarrow> real
   \<Rightarrow> ai_result" where
  "azure_try env h key endpoint deployment prompt system_prompt mt temp =
     (case openai_import env of
        Some e \<Rightarrow> (Inl e, h, [])
      | None \<Rightarrow>
          (case azure_client_init env h key endpoint of
             (Some e, h1, cs) \<Rightarrow> (Inl e, h1, cs)
           | (None, h1, cs) \<Rightarrow>
               (case azure_create env deployment (build_messages prompt system_prompt) mt temp of
                  Inl e \<Rightarrow>
                    (Inl e, h1,
                     cs @ [AzureChatCreate deployment (build_messages prompt system_prompt) mt temp])
                | Inr response \<Rightarrow>
                    (result_dict (first_content (c_choices response)) ''azure''
                       (azure_model_entry h1) (c_usage response),
                     h1,
                     cs @ [AzureChatCreate deployment (build_messages prompt system_prompt) mt temp]))))"

definition query_azure_openai ::
  "sdk_env \<Rightarrow> ai_helper \<Rightarrow> string \<Rightarrow> string option \<Rightarrow> int \<Rightarrow> real \<Rightarrow> ai_result" where
  "query_azure_openai env h prompt system_prompt mt temp =
     (case azure_openai_api_key h of
        None \<Rightarrow> (Inl (ValueError ''Azure OpenAI API key not configured''), h, [])
      | Some key \<Rightarrow>
          if key = [] then (Inl (ValueError ''Azure OpenAI API key not configured''), h, [])
          else
            (case azure_openai_endpoint h of
               None \<Rightarrow> (Inl (ValueError ''Azure OpenAI endpoint not configured''), h, [])
             | Some endpoint \<Rightarrow>
                 if endpoint = [] then
                   (Inl (ValueError ''Azure OpenAI endpoint not configured''), h, [])
                 else
                   (case azure_openai_deployment h of
                      None \<Rightarrow>
                        (Inl (ValueError ''Azure OpenAI deployment name not configured''), h, [])
                    | Some deployment \<Rightarrow>
                        if deployment = [] then
                          (Inl (ValueError ''Azure OpenAI deployment name not configured''), h, [])
                        else
                          reraise openai_except
                            (azure_try env h key endpoint deployment prompt system_prompt mt temp))))"

text \<open>
  \<open>query\<close>: \<open>"auto"\<close> is resolved by \<open>select_best_provider\<close>, then the name is
  routed. The overrides are combined with the configured values by \<open>or\<close>.
\<close>

definition query ::
  "sdk_env \<Rightarrow> ai_helper \<Rightarrow> string \<Rightarrow> string \<Rightarrow> string option \<Rightarrow> int option \<Rightarrow> real option \<Rightarrow> ai_result" where
  "query env h prompt provider system_prompt mt temp =
     (case (if provider = ''auto'' then select_best_provider h else Inr provider) of
        Inl e \<Rightarrow> (Inl e, h, [])
      | Inr p \<Rightarrow>
          if p = ''gemini'' then
            query_gemini env h prompt system_prompt (or_int mt (max_tokens h)) (or_float temp (temperature h))
          else if p = ''chatgpt'' then
            query_chatgpt env h prompt system_prompt (or_int mt (max_tokens h)) (or_float temp (temperature h))
          else if p = ''azure'' \<or> p = ''azure_openai'' then
            query_azure_openai env h prompt system_prompt (or_int mt (max_tokens h)) (or_float temp (temperature h))
          else (Inl (ValueError (''Unknown provider: '' @ p)), h, []))"

definition is_provider_available :: "ai_helper \<Rightarrow> string \<Rightarrow> bool" where
  "is_provider_available h provider =
     (if provider = ''gemini'' then truthy_str (gemini_api_key h)
      else if provider = ''chatgpt'' then truthy_str (chatgpt_api_key h)
      else if provider = ''azure'' \<or> provider = ''azure_openai'' then
        truthy_str (azure_openai_api_key h) \<and> truthy_str (azure_openai_endpoint h)
        \<and> truthy_str (azure_openai_deployment h)
      else False)"


text \<open>
  The selection policy in the words of the specification: the configured default
  if its key is present, else the first of the fixed order with a key, else an
  error. \<open>api_key_present\<close> reads "the provider's API key is present" for the
  three provider names; no other name has a key.
\<close>

definition provider_priority :: "string list" where
  "provider_priority = [''gemini'', ''chatgpt'', ''azure'']"

definition api_key_present :: "ai_helper \<Rightarrow> string \<Rightarrow> bool" where
  "api_key_present h p =
     (if p = ''gemini'' then truthy_str (gemini_api_key h)
      else if p = ''chatgpt'' then truthy_str (chatgpt_api_key h)
      else if p = ''azure'' then truthy_str (azure_openai_api_key h)
      else False)"

definition spec_select_provider :: "ai_helper \<Rightarrow> exn + string" where
  "spec_select_provider h =
     (if api_key_present h (default_provider h) then Inr (default_provider h)
      else
        (case find (api_key_present h) provider_priority of
           Some p \<Rightarrow> Inr p
         | None \<Rightarrow> Inl (ValueError ''No AI provider API keys configured'')))"

text \<open>
  The common result shape of the specification: exactly the four keys, the
  provider entry naming the backend, an integer token count.
\<close>

definition common_result_shape :: "pydict \<Rightarrow> string \<Rightarrow> bool" where
  "common_result_shape r backend =
     (map fst r = [''text'', ''provider'', ''model'', ''tokens_used'']
      \<and> map_of r ''provider'' = Some (PStr backend)
      \<and> (\<exists>n. map_of r ''tokens_used'' = Some (PInt n)))"

text \<open>
  An SDK in which every package imports and every call returns: Gemini answers
  with the given text and no usage metadata, the chat APIs with one choice and
  a usage of 7 tokens. Used to run the helper on concrete inputs.
\<close>

definition sdk_answering :: "string \<Rightarrow> sdk_env" where
  "sdk_answering t =
     \<lparr> genai_import = None, openai_import = None, sdk_setup = (\<lambda>c. None),
       generate_content = (\<lambda>p m temp. Inr \<lparr> g_text = Inr t, g_usage_metadata = NoAttr \<rparr>),
       openai_create = (\<lambda>model ms m temp. Inr \<lparr> c_choices = [Some t], c_usage = Attr 7 \<rparr>),
       azure_create = (\<lambda>model ms m temp. Inr \<lparr> c_choices = [Some t], c_usage = Attr 7 \<rparr>) \<rparr>"



text \<open>\<open>s.rstrip("/")\<close>, \<open>s.startswith(p)\<close> and \<open>s.upper()\<close> on ASCII letters.\<close>

definition rstrip_slash :: "string \<Rightarrow> string" where
  "rstrip_slash s = rev (dropWhile (\<lambda>c. c = CHR ''/'') (rev s))"




section \<open>The host contract\<close>

text \<open>
  Modelled from the spec: the host's \<open>service_registry\<close> and \<open>Integration\<close> base
  class (\<open>services.service_registry\<close>, \<open>services.integration_base\<close>) are not in
  the repository. The registry maps (domain, service) to a handler, a schema and
  a description; \<open>register\<close> stores the entry and replaces an earlier one;
  \<open>get_service\<close> returns the handler or \<open>None\<close>. A plugin holds its domain name and
  its configuration mapping; \<open>register_service\<close> of the base class registers
  under the plugin's own domain. Handlers are named by their method name.
\<close>

record service_entry =
  handler :: string
  input_schema :: pydict
  description :: string

type_synonym registry = "string \<times> string \<Rightarrow> service_entry option"

record registration =
  reg_domain :: string
  reg_service :: string
  reg_func :: string
  reg_schema :: pydict
  reg_description :: string

definition register :: "registry \<Rightarrow> registration \<Rightarrow> registry" where
  "register reg r =
     reg((reg_domain r, reg_service r) \<mapsto>
       \<lparr> handler = reg_func r, input_schema = reg_schema r, description = reg_description r \<rparr>)"

definition get_service :: "registry \<Rightarrow> string \<Rightarrow> string \<Rightarrow> string option" where
  "get_service reg d s = map_option handler (reg (d, s))"

text \<open>
  An \<open>async_setup\<close> returns the \<open>register\<close> calls it made, in order; the host's
  registry after the setup is the registry before with these calls applied.
  "Registers zero services" is the empty list.
\<close>

definition apply_registrations :: "registry \<Rightarrow> registration list \<Rightarrow> registry" where
  "apply_registrations reg rs = foldl register reg rs"

record integration =
  domain :: string
  config :: pydict


subsection \<open>HTTP through the requests library\<close>

text \<open>
  A call of \<open>requests.get/post/put/patch/delete\<close> with the keyword arguments the
  plugins use (an argument not passed is \<open>None\<close>). The remote side is a function
  from the request to an exception or a response; a handler returns the
  requests it made, in order, next to its result.
\<close>

record http_request =
  rq_verb :: string
  rq_url :: pyval
  rq_json :: "pyval option"
  rq_params :: "pyval option"
  rq_headers :: "pydict option"
  rq_timeout :: pyval

record http_response =
  status_code :: int
  body :: string
  json_body :: "exn + pyval"

type_synonym http_env = "http_request \<Rightarrow> exn + http_response"

type_synonym handler_result = "(exn + pydict) \<times> http_request list"

definition raise_for_status :: "http_response \<Rightarrow> exn option" where
  "raise_for_status resp =
     (if 400 \<le> status_code resp \<and> status_code resp < 600 then Some (HTTPError (status_code resp))
      else None)"

text \<open>
  The standard-library functions the plugins call: \<open>json.dumps(v, indent=2)\<close>,
  \<open>json.loads\<close> (\<open>None\<close> stands for \<open>JSONDecodeError\<close>) and the text an f-string
  puts in for a value that is not a string.
\<close>

record stdlib =
  json_dumps :: "pyval \<Rightarrow> exn + string"
  json_loads :: "string \<Rightarrow> pyval option"
  str_other :: "pyval \<Rightarrow> string"

definition py_format :: "stdlib \<Rightarrow> pyval \<Rightarrow> string" where
  "py_format lib v = (case v of PStr s \<Rightarrow> s | _ \<Rightarrow> str_other lib v)"

section \<open>Slack notifications (slack-notifications/integration.py)\<close>


definition Slack_send_message :: "http_env \<Rightarrow> integration \<Rightarrow> pydict \<Rightarrow> handler_result" where
  "Slack_send_message http self data =
     (if \<not> truthy (dict_get (config self) ''webhook_url'') then
        (Inl (ValueError ''webhook_url not configured''), [])
      else
        let channel = py_or (dict_get data ''channel'')
                        (dict_get_default (config self) ''default_channel'' (PStr ''#general''));
            payload = PDict [(''channel'', channel),
                             (''text'', dict_get_default data ''message'' (PStr '''')),
                             (''username'', dict_get_default data ''username'' (PStr ''faneX-ID'')),
                             (''icon_emoji'', dict_get_default data ''icon_emoji'' (PStr '':robot_face:''))];
            rq = \<lparr> rq_verb = ''POST'', rq_url = dict_get (config self) ''webhook_url'',
                   rq_json = Some payload, rq_params = None, rq_headers = None,
                   rq_timeout = PInt 10 \<rparr>
        in
          (case http rq of
             Inl e \<Rightarrow> (Inl e, [rq])
           | Inr response \<Rightarrow>
               (case raise_for_status response of
                  Some e \<Rightarrow> (Inl e, [rq])
                | None \<Rightarrow> (Inr [(''status'', PStr ''sent''), (''channel'', channel)], [rq]))))"

section \<open>Mattermost (mattermost/integration.py)\<close>


definition Mattermost_get_headers :: "stdlib \<Rightarrow> integration \<Rightarrow> exn + pydict" where
  "Mattermost_get_headers lib self =
     (if \<not> truthy (dict_get (config self) ''api_token'') then
        Inl (ValueError ''Mattermost API token not configured'')
      else
        Inr [(''Authorization'',
              PStr (''Bearer '' @ py_format lib (dict_get (config self) ''api_token''))),
             (''Content-Type'', PStr ''application/json'')])"

definition Mattermost_get_base_url :: "integration \<Rightarrow> exn + string" where
  "Mattermost_get_base_url self =
     (case dict_get_default (config self) ''server_url'' (PStr '''') of
        PStr s \<Rightarrow>
          if rstrip_slash s = [] then Inl (ValueError ''Mattermost server URL not configured'')
          else Inr (rstrip_slash s)
      | _ \<Rightarrow> Inl (AttributeError ''object has no attribute rstrip''))"

definition Mattermost_send_message ::
  "stdlib \<Rightarrow> http_env \<Rightarrow> integration \<Rightarrow> pydict \<Rightarrow> handler_result" where
  "Mattermost_send_message lib http self data =
     (case Mattermost_get_base_url self of
        Inl e \<Rightarrow> (Inl e, [])
      | Inr base_url \<Rightarrow>
          if \<not> truthy (dict_get_default data ''channel_id'' (PStr ''''))
             \<or> \<not> truthy (dict_get_default data ''message'' (PStr '''')) then
            (Inl (ValueError ''channel_id and message required''), [])
          else
            (case Mattermost_get_headers lib self of
               Inl e \<Rightarrow> (Inl e, [])
             | Inr hs \<Rightarrow>
                 let rq = \<lparr> rq_verb = ''POST'', rq_url = PStr (base_url @ ''/api/v4/posts''),
                            rq_json = Some (PDict
                              [(''channel_id'', dict_get_default data ''channel_id'' (PStr '''')),
                               (''message'', dict_get_default data ''message'' (PStr ''''))]),
                            rq_params = None, rq_headers = Some hs, rq_timeout = PInt 30 \<rparr>
                 in
                   (case http rq of
                      Inl e \<Rightarrow> (Inl e, [rq])
                    | Inr response \<Rightarrow>
                        (case raise_for_status response of
                           Some e \<Rightarrow> (Inl e, [rq])
                         | None \<Rightarrow>
                             (case json_body response of
                                Inl e \<Rightarrow> (Inl e, [rq])
                              | Inr (PDict result) \<Rightarrow>
                                  (Inr [(''success'', PBool True), (''post_id'', dict_get result ''id'')],
                                   [rq])
                              | Inr _ \<Rightarrow>
                                  (Inl (AttributeError ''object has no attribute get''), [rq]))))))"

section \<open>NetBox (netbox/integration.py)\<close>







section \<open>Microsoft Graph Exchange (microsoft-graph-exchange/integration.py)\<close>

text \<open>
  \<open>get_dependency\<close> belongs to the host; it is a parameter that maps a domain
  name to the live instance of that plugin, if there is one.
\<close>

definition GraphExchange_async_setup ::
  "(string \<Rightarrow> 'i option) \<Rightarrow> integration \<Rightarrow> bool \<times> registration list" where
  "GraphExchange_async_setup get_dependency self =
     (case get_dependency ''microsoft_graph'' of
        None \<Rightarrow> (False, [])
      | Some graph_integration \<Rightarrow>
          (True,
           [\<lparr> reg_domain = domain self, reg_service = ''send_email'', reg_func = ''send_email'',
              reg_schema = [(''to'', PType ''list''), (''subject'', PType ''str''),
                            (''body'', PType ''str''), (''cc'', PType ''list'')],
              reg_description = ''Send an email via Exchange Online'' \<rparr>,
            \<lparr> reg_domain = domain self, reg_service = ''get_messages'', reg_func = ''get_messages'',
              reg_schema = [(''user_id'', PType ''str''), (''folder'', PType ''str''),
                            (''limit'', PType ''int'')],
              reg_description = ''Get email messages'' \<rparr>,
            \<lparr> reg_domain = domain self, reg_service = ''create_calendar_event'',
              reg_func = ''create_calendar_event'',
              reg_schema = [(''subject'', PType ''str''), (''start'', PType ''str''),
                            (''end'', PType ''str''), (''attendees'', PType ''list'')],
              reg_description = ''Create a calendar event'' \<rparr>]))"

section \<open>Generic webhook (webhook-generic/integration.py)\<close>






section \<open>Docker (docker/integration.py)\<close>




section \<open>AI assistant (ai-assistant/integration.py)\<close>

subsection \<open>The two regular expressions\<close>
















subsection \<open>The workflow helpers\<close>










section \<open>Stand-ins for running the handlers\<close>

text \<open>
  A remote side that answers every request with the given status and body, and
  a \<open>json\<close> module that knows one document, the empty object: it is applied
  below only to texts on which it agrees with \<open>json.loads\<close> and to the value
  on which it agrees with \<open>json.dumps\<close>.
\<close>

definition http_answering :: "int \<Rightarrow> string \<Rightarrow> http_env" where
  "http_answering code txt =
     (\<lambda>rq. Inr \<lparr> status_code = code, body = txt, json_body = Inr (PDict []) \<rparr>)"

definition json_empty_object :: stdlib where
  "json_empty_object =
     \<lparr> json_dumps = (\<lambda>v. if v = PDict [] then Inr ''{}'' else Inl (TypeError ''not modelled'')),
       json_loads = (\<lambda>s. if s = ''{}'' then Some (PDict []) else None),
       str_other = (\<lambda>v. []) \<rparr>"

section \<open>Properties of the AI helper\<close>

subsection \<open>Selection of the provider\<close>

lemma select_refines: "select_best_provider h = spec_select_provider h"
  by (simp add: select_best_provider_def spec_select_provider_def api_key_present_def
        provider_priority_def)

lemma select_range:
  "select_best_provider h = Inr p \<Longrightarrow> p = ''gemini'' \<or> p = ''chatgpt'' \<or> p = ''azure''"
  unfolding select_best_provider_def by (simp split: if_splits)

lemma query_auto:
  "query env h prompt ''auto'' sp mt t =
     (case select_best_provider h of
        Inl e \<Rightarrow> (Inl e, h, [])
      | Inr p \<Rightarrow> query env h prompt p sp mt t)"
proof (cases "select_best_provider h")
  case (Inl e)
  then show ?thesis by (simp add: query_def)
next
  case (Inr p)
  from select_range[OF Inr] have "p \<noteq> ''auto''" by auto
  with Inr show ?thesis by (simp add: query_def)
qed

text \<open>
  Claim C1. With \<open>provider = "auto"\<close> the helper selects what the stated policy
  selects, for every configuration: the configured default provider when its API
  key is present, otherwise the first of gemini, chatgpt, azure whose key is
  present, otherwise it raises. \<open>query\<close> then behaves as the explicit call to the
  selected backend, and returns the error with no SDK call when none is selected.
\<close>

theorem C1_auto_selects_default_then_priority:
  "select_best_provider h = spec_select_provider h \<and>
   query env h prompt ''auto'' sp mt t =
     (case spec_select_provider h of
        Inl e \<Rightarrow> (Inl e, h, [])
      | Inr p \<Rightarrow> query env h prompt p sp mt t)"
  using query_auto[of env h prompt sp mt t] select_refines[of h] by simp

text \<open>
  The instance named in the claim: the default is gemini, only the chatgpt key
  is configured, and chatgpt is selected. With no key at all the call raises.
\<close>

theorem C1_auto_selects_witness:
  "select_best_provider
     (AIHelper_init None (Some ''sk-1'') None None None None ''gemini'' ''gemini-pro'' ''gpt-4''
        None 2000 0.7)
   = Inr ''chatgpt'' \<and>
   select_best_provider
     (AIHelper_init None None None None None None ''gemini'' ''gemini-pro'' ''gpt-4'' None 2000 0.7)
   = Inl (ValueError ''No AI provider API keys configured'')"
  using
    C1_auto_selects_default_then_priority
      [of "AIHelper_init None (Some ''sk-1'') None None None None ''gemini'' ''gemini-pro'' ''gpt-4''
             None 2000 0.7"]
    C1_auto_selects_default_then_priority
      [of "AIHelper_init None None None None None None ''gemini'' ''gemini-pro'' ''gpt-4''
             None 2000 0.7"]
  by (simp add: spec_select_provider_def api_key_present_def provider_priority_def
        AIHelper_init_def truthy_str_def)

subsection \<open>An explicit provider without credentials\<close>

lemma gemini_unconfigured:
  "\<not> truthy_str (gemini_api_key h) \<Longrightarrow>
   query_gemini env h prompt sp m t = (Inl (ValueError ''Gemini API key not configured''), h, [])"
  by (simp add: query_gemini_def truthy_str_def split: option.splits)

lemma chatgpt_unconfigured:
  "\<not> truthy_str (chatgpt_api_key h) \<Longrightarrow>
   query_chatgpt env h prompt sp m t = (Inl (ValueError ''ChatGPT API key not configured''), h, [])"
  by (simp add: query_chatgpt_def truthy_str_def split: option.splits)

lemma azure_unconfigured:
  "\<not> (truthy_str (azure_openai_api_key h) \<and> truthy_str (azure_openai_endpoint h)
        \<and> truthy_str (azure_openai_deployment h)) \<Longrightarrow>
   \<exists>m. query_azure_openai env h prompt sp m' t = (Inl (ValueError m), h, [])"
  by (auto simp add: query_azure_openai_def truthy_str_def split: option.splits)

text \<open>
  Claim C2. For every provider name other than \<open>"auto"\<close> whose credentials are
  not configured (\<open>is_provider_available\<close> is false), \<open>query\<close> raises a
  \<open>ValueError\<close>, makes no SDK call at all, so no other provider is tried,
  and leaves the helper unchanged.
\<close>

theorem C2_explicit_provider_no_fallback:
  "provider \<noteq> ''auto'' \<Longrightarrow> \<not> is_provider_available h provider \<Longrightarrow>
   \<exists>m. query env h prompt provider sp mt t = (Inl (ValueError m), h, [])"
proof -
  assume na: "provider \<noteq> ''auto''" and un: "\<not> is_provider_available h provider"
  consider (g) "provider = ''gemini''" | (c) "provider = ''chatgpt''"
    | (a) "provider = ''azure'' \<or> provider = ''azure_openai''"
    | (u) "provider \<noteq> ''gemini''" "provider \<noteq> ''chatgpt''" "provider \<noteq> ''azure''"
          "provider \<noteq> ''azure_openai''"
    by blast
  then show ?thesis
  proof cases
    case g
    with un have "\<not> truthy_str (gemini_api_key h)" by (simp add: is_provider_available_def)
    then show ?thesis using g by (simp add: query_def gemini_unconfigured)
  next
    case c
    with un have "\<not> truthy_str (chatgpt_api_key h)" by (simp add: is_provider_available_def)
    then show ?thesis using c by (simp add: query_def chatgpt_unconfigured)
  next
    case a
    with un have "\<not> (truthy_str (azure_openai_api_key h) \<and> truthy_str (azure_openai_endpoint h)
        \<and> truthy_str (azure_openai_deployment h))"
      by (auto simp add: is_provider_available_def)
    from azure_unconfigured[OF this] obtain m where
      "query_azure_openai env h prompt sp (or_int mt (max_tokens h)) (or_float t (temperature h))
       = (Inl (ValueError m), h, [])"
      by blast
    then show ?thesis using a by (auto simp add: query_def)
  next
    case u
    then show ?thesis using na by (simp add: query_def)
  qed
qed

text \<open>
  Gemini is configured and would answer, chatgpt is asked for by name and has
  no key: the call fails and Gemini is not contacted.
\<close>

theorem C2_explicit_provider_witness:
  "''chatgpt'' \<noteq> ''auto'' \<and>
   \<not> is_provider_available
        (AIHelper_init (Some ''g-key'') None None None None None ''gemini'' ''gemini-pro''
           ''gpt-4'' None 2000 0.7) ''chatgpt'' \<and>
   (\<exists>m. query (sdk_answering ''ok'')
          (AIHelper_init (Some ''g-key'') None None None None None ''gemini'' ''gemini-pro''
             ''gpt-4'' None 2000 0.7)
          ''hi'' ''chatgpt'' None None None
        = (Inl (ValueError m),
           AIHelper_init (Some ''g-key'') None None None None None ''gemini'' ''gemini-pro''
             ''gpt-4'' None 2000 0.7,
           []))"
proof -
  have a: "''chatgpt'' \<noteq> ''auto''" by simp
  have b: "\<not> is_provider_available
        (AIHelper_init (Some ''g-key'') None None None None None ''gemini'' ''gemini-pro''
           ''gpt-4'' None 2000 0.7) ''chatgpt''"
    by (simp add: is_provider_available_def AIHelper_init_def truthy_str_def)
  from a b C2_explicit_provider_no_fallback[OF a b] show ?thesis by blast
qed

subsection \<open>The common result shape\<close>

lemma result_dict_shape:
  "result_dict txt prov model usage = Inr r \<Longrightarrow>
   common_result_shape r prov \<and> map_of r ''model'' = Some model
   \<and> (usage = NoAttr \<longrightarrow> map_of r ''tokens_used'' = Some (PInt 0))"
  by (auto simp add: result_dict_def common_result_shape_def tokens_used_of_def
        split: sum.splits attr.splits)

lemma reraise_Inr: "reraise f x = (Inr r, h', cs) \<Longrightarrow> x = (Inr r, h', cs)"
  by (auto simp add: reraise_def split: prod.splits sum.splits)

lemma gemini_client_init_model:
  "gemini_client_init env h key = (x, h1, cs) \<Longrightarrow> gemini_model h1 = gemini_model h"
  by (auto simp add: gemini_client_init_def split: if_splits option.splits)

lemma chatgpt_client_init_model:
  "chatgpt_client_init env h key = (x, h1, cs) \<Longrightarrow> chatgpt_model h1 = chatgpt_model h"
  by (auto simp add: chatgpt_client_init_def split: if_splits option.splits)

lemma azure_client_init_model:
  "azure_client_init env h key ep = (x, h1, cs) \<Longrightarrow> azure_model_entry h1 = azure_model_entry h"
  by (auto simp add: azure_client_init_def azure_model_entry_def split: if_splits option.splits)

lemma gemini_try_ok:
  "gemini_try env h key prompt sp mt t = (Inr r, h', cs) \<Longrightarrow>
   \<exists>resp. generate_content env (gemini_full_prompt prompt sp) mt t = Inr resp \<and>
     result_dict (map_sum id PStr (g_text resp)) ''gemini'' (PStr (gemini_model h))
       (g_usage_metadata resp) = Inr r"
  unfolding gemini_try_def
  by (auto split: option.splits prod.splits sum.splits dest: gemini_client_init_model)

lemma chatgpt_try_ok:
  "chatgpt_try env h key prompt sp mt t = (Inr r, h', cs) \<Longrightarrow>
   \<exists>resp. openai_create env (chatgpt_model h) (build_messages prompt sp) mt t = Inr resp \<and>
     result_dict (first_content (c_choices resp)) ''chatgpt'' (PStr (chatgpt_model h))
       (c_usage resp) = Inr r"
  unfolding chatgpt_try_def
  by (auto split: option.splits prod.splits sum.splits dest: chatgpt_client_init_model)

lemma azure_try_ok:
  "azure_try env h key ep dep prompt sp mt t = (Inr r, h', cs) \<Longrightarrow>
   \<exists>resp. azure_create env dep (build_messages prompt sp) mt t = Inr resp \<and>
     result_dict (first_content (c_choices resp)) ''azure'' (azure_model_entry h)
       (c_usage resp) = Inr r"
  unfolding azure_try_def
  by (auto split: option.splits prod.splits sum.splits dest: azure_client_init_model)

lemma query_gemini_ok:
  assumes "query_gemini env h prompt sp mt t = (Inr r, h', cs)"
  shows "common_result_shape r ''gemini'' \<and> map_of r ''model'' = Some (PStr (gemini_model h)) \<and>
     (\<forall>resp. generate_content env (gemini_full_prompt prompt sp) mt t = Inr resp \<longrightarrow>
        g_usage_metadata resp = NoAttr \<longrightarrow> map_of r ''tokens_used'' = Some (PInt 0))"
proof -
  from assms obtain key where "gemini_try env h key prompt sp mt t = (Inr r, h', cs)"
    by (auto simp add: query_gemini_def split: option.splits if_splits dest: reraise_Inr)
  from gemini_try_ok[OF this] obtain resp where
    g: "generate_content env (gemini_full_prompt prompt sp) mt t = Inr resp" and
    rd: "result_dict (map_sum id PStr (g_text resp)) ''gemini'' (PStr (gemini_model h))
       (g_usage_metadata resp) = Inr r" by blast
  from result_dict_shape[OF rd] g show ?thesis by auto
qed

lemma query_chatgpt_ok:
  assumes "query_chatgpt env h prompt sp mt t = (Inr r, h', cs)"
  shows "common_result_shape r ''chatgpt'' \<and> map_of r ''model'' = Some (PStr (chatgpt_model h)) \<and>
     (\<forall>resp. openai_create env (chatgpt_model h) (build_messages prompt sp) mt t = Inr resp \<longrightarrow>
        c_usage resp = NoAttr \<longrightarrow> map_of r ''tokens_used'' = Some (PInt 0))"
proof -
  from assms obtain key where "chatgpt_try env h key prompt sp mt t = (Inr r, h', cs)"
    by (auto simp add: query_chatgpt_def split: option.splits if_splits dest: reraise_Inr)
  from chatgpt_try_ok[OF this] obtain resp where
    g: "openai_create env (chatgpt_model h) (build_messages prompt sp) mt t = Inr resp" and
    rd: "result_dict (first_content (c_choices resp)) ''chatgpt'' (PStr (chatgpt_model h))
       (c_usage resp) = Inr r" by blast
  from result_dict_shape[OF rd] g show ?thesis by auto
qed

lemma query_azure_ok:
  assumes "query_azure_openai env h prompt sp mt t = (Inr r, h', cs)"
  shows "common_result_shape r ''azure'' \<and> map_of r ''model'' = Some (azure_model_entry h) \<and>
     (\<forall>dep resp. azure_openai_deployment h = Some dep \<longrightarrow>
        azure_create env dep (build_messages prompt sp) mt t = Inr resp \<longrightarrow>
        c_usage resp = NoAttr \<longrightarrow> map_of r ''tokens_used'' = Some (PInt 0))"
proof -
  from assms obtain key ep dep where d: "azure_openai_deployment h = Some dep" and
    "azure_try env h key ep dep prompt sp mt t = (Inr r, h', cs)"
    by (auto simp add: query_azure_openai_def split: option.splits if_splits dest: reraise_Inr)
  from azure_try_ok[OF this(2)] obtain resp where
    g: "azure_create env dep (build_messages prompt sp) mt t = Inr resp" and
    rd: "result_dict (first_content (c_choices resp)) ''azure'' (azure_model_entry h)
       (c_usage resp) = Inr r" by blast
  from result_dict_shape[OF rd] g d show ?thesis by auto
qed

text \<open>A complete run of the Gemini backend against an SDK that answers.\<close>

lemma gemini_run:
  "query_gemini (sdk_answering ''ok'')
     (AIHelper_init (Some ''g-key'') None None None None None ''gemini'' ''gemini-pro''
        ''gpt-4'' None 2000 0.7) ''hi'' None 2000 0.7
   = (Inr [(''text'', PStr ''ok''), (''provider'', PStr ''gemini''),
           (''model'', PStr ''gemini-pro''), (''tokens_used'', PInt 0)],
      (AIHelper_init (Some ''g-key'') None None None None None ''gemini'' ''gemini-pro''
        ''gpt-4'' None 2000 0.7)\<lparr>gemini_client := True\<rparr>,
      [GenaiConfigure ''g-key'', GenerativeModel ''gemini-pro'', GenerateContent ''hi'' 2000 0.7])"
  by (simp add: query_gemini_def AIHelper_init_def reraise_def gemini_try_def sdk_answering_def
        gemini_client_init_def gemini_full_prompt_def result_dict_def tokens_used_of_def)

text \<open>
  Claim C4. Whenever one of the three backends returns a result, the result has
  exactly the keys text, provider, model and tokens\_used, in this order; the
  provider entry names the backend that ran, the model entry is the configured
  model of that backend, and tokens\_used is an integer, which is 0 when the
  response that the backend received carries no usage attribute.
\<close>

theorem C4_backends_return_common_shape:
  "(query_gemini env h prompt sp mt t = (Inr r, h', cs) \<longrightarrow>
      common_result_shape r ''gemini'' \<and> map_of r ''model'' = Some (PStr (gemini_model h)) \<and>
      (\<forall>resp. generate_content env (gemini_full_prompt prompt sp) mt t = Inr resp \<longrightarrow>
         g_usage_metadata resp = NoAttr \<longrightarrow> map_of r ''tokens_used'' = Some (PInt 0))) \<and>
   (query_chatgpt env h prompt sp mt t = (Inr r, h', cs) \<longrightarrow>
      common_result_shape r ''chatgpt'' \<and> map_of r ''model'' = Some (PStr (chatgpt_model h)) \<and>
      (\<forall>resp. openai_create env (chatgpt_model h) (build_messages prompt sp) mt t = Inr resp \<longrightarrow>
         c_usage resp = NoAttr \<longrightarrow> map_of r ''tokens_used'' = Some (PInt 0))) \<and>
   (query_azure_openai env h prompt sp mt t = (Inr r, h', cs) \<longrightarrow>
      common_result_shape r ''azure'' \<and> map_of r ''model'' = Some (azure_model_entry h) \<and>
      (\<forall>dep resp. azure_openai_deployment h = Some dep \<longrightarrow>
         azure_create env dep (build_messages prompt sp) mt t = Inr resp \<longrightarrow>
         c_usage resp = NoAttr \<longrightarrow> map_of r ''tokens_used'' = Some (PInt 0)))"
  using query_gemini_ok[of env h prompt sp mt t r h' cs]
    query_chatgpt_ok[of env h prompt sp mt t r h' cs]
    query_azure_ok[of env h prompt sp mt t r h' cs]
  by blast

text \<open>The run above has the common shape, with a token count of 0.\<close>

theorem C4_backends_return_common_shape_witness:
  "common_result_shape
     [(''text'', PStr ''ok''), (''provider'', PStr ''gemini''),
      (''model'', PStr ''gemini-pro''), (''tokens_used'', PInt 0)] ''gemini''"
  using C4_backends_return_common_shape
    [of "sdk_answering ''ok''"
        "AIHelper_init (Some ''g-key'') None None None None None ''gemini'' ''gemini-pro''
           ''gpt-4'' None 2000 0.7" "''hi''" None 2000 "0.7"
        "[(''text'', PStr ''ok''), (''provider'', PStr ''gemini''),
          (''model'', PStr ''gemini-pro''), (''tokens_used'', PInt 0)]"
        "(AIHelper_init (Some ''g-key'') None None None None None ''gemini'' ''gemini-pro''
           ''gpt-4'' None 2000 0.7)\<lparr>gemini_client := True\<rparr>"
        "[GenaiConfigure ''g-key'', GenerativeModel ''gemini-pro'', GenerateContent ''hi'' 2000 0.7]"]
    gemini_run
  by blast

subsection \<open>Falsy overrides\<close>

lemma or_int_falsy: "mt = None \<or> mt = Some 0 \<Longrightarrow> or_int mt d = or_int (Some d) d"
  by (auto simp add: or_int_def)

lemma or_float_falsy: "t = None \<or> t = Some 0 \<Longrightarrow> or_float t d = or_float (Some d) d"
  by (auto simp add: or_float_def)

text \<open>
  Claim C10. A \<open>max_tokens\<close> override of \<open>None\<close> or 0 makes \<open>query\<close> behave exactly
  as if the configured \<open>max_tokens\<close> had been passed, and a \<open>temperature\<close> override
  of \<open>None\<close> or 0.0 exactly as if the configured temperature had been passed:
  result, helper state and SDK calls are the same. A caller therefore cannot
  request temperature 0.0.
\<close>

theorem C10_falsy_override_replaced_by_default:
  "((mt = None \<or> mt = Some 0) \<longrightarrow>
      query env h prompt provider sp mt t = query env h prompt provider sp (Some (max_tokens h)) t) \<and>
   ((t = None \<or> t = Some 0) \<longrightarrow>
      query env h prompt provider sp mt t = query env h prompt provider sp mt (Some (temperature h)))"
  unfolding query_def using or_int_falsy[of mt "max_tokens h"] or_float_falsy[of t "temperature h"]
  by presburger

text \<open>
  The caller asks for temperature 0.0 and 0 tokens; Gemini is called with the
  configured 0.7 and 2000.
\<close>

theorem C10_falsy_override_witness:
  "snd (snd (query (sdk_answering ''ok'')
     (AIHelper_init (Some ''g-key'') None None None None None ''gemini'' ''gemini-pro''
        ''gpt-4'' None 2000 0.7) ''hi'' ''gemini'' None (Some 0) (Some 0)))
   = [GenaiConfigure ''g-key'', GenerativeModel ''gemini-pro'', GenerateContent ''hi'' 2000 0.7]"
proof -
  let ?h = "AIHelper_init (Some ''g-key'') None None None None None ''gemini'' ''gemini-pro''
        ''gpt-4'' None 2000 0.7"
  let ?e = "sdk_answering ''ok''"
  have mt: "max_tokens ?h = 2000" and tp: "temperature ?h = 0.7"
    by (simp_all add: AIHelper_init_def)
  have 1: "query ?e ?h ''hi'' ''gemini'' None (Some 0) (Some 0)
         = query ?e ?h ''hi'' ''gemini'' None (Some 2000) (Some 0)"
    using C10_falsy_override_replaced_by_default
      [of "Some 0" ?e ?h "''hi''" "''gemini''" None "Some 0"] mt by simp
  have 2: "query ?e ?h ''hi'' ''gemini'' None (Some 2000) (Some 0)
         = query ?e ?h ''hi'' ''gemini'' None (Some 2000) (Some 0.7)"
    using C10_falsy_override_replaced_by_default
      [of "Some 2000" ?e ?h "''hi''" "''gemini''" None "Some 0"] tp by simp
  have 3: "query ?e ?h ''hi'' ''gemini'' None (Some 2000) (Some 0.7)
         = query_gemini ?e ?h ''hi'' None 2000 0.7"
    by (simp add: query_def or_int_def or_float_def)
  show ?thesis unfolding 1 2 3 gemini_run by simp
qed

section \<open>Properties of the plugins\<close>

subsection \<open>Setup and registration\<close>

lemma get_default_falsy:
  "\<not> truthy (dict_get d k) \<Longrightarrow> \<not> truthy (dict_get_default d k (PStr []))"
  by (simp add: dict_get_def dict_get_default_def split: option.splits)





text \<open>
  Claim C8. When the lookup of the \<open>microsoft_graph\<close> dependency returns no
  instance, the Graph Exchange \<open>async_setup\<close> returns \<open>False\<close> and makes no
  registration, so the registry is as it was.
\<close>

theorem C8_missing_dependency_fails_setup:
  "get_dependency ''microsoft_graph'' = None \<Longrightarrow>
   GraphExchange_async_setup get_dependency self = (False, []) \<and>
   apply_registrations reg (snd (GraphExchange_async_setup get_dependency self)) = reg"
  by (simp add: GraphExchange_async_setup_def apply_registrations_def)

theorem C8_missing_dependency_witness:
  "(Map.empty :: string \<Rightarrow> unit option) ''microsoft_graph'' = None \<and>
   GraphExchange_async_setup (Map.empty :: string \<Rightarrow> unit option)
     \<lparr> domain = ''microsoft_graph_exchange'', config = [] \<rparr> = (False, [])"
  using C8_missing_dependency_fails_setup[of "Map.empty :: string \<Rightarrow> unit option" "\<lparr> domain = ''microsoft_graph_exchange'', config = [] \<rparr>"]
  by simp

text \<open>With the dependency present the three services are registered.\<close>

lemma graph_present:
  "get_dependency ''microsoft_graph'' = Some g \<Longrightarrow>
   fst (GraphExchange_async_setup get_dependency self) = True \<and>
   map reg_service (snd (GraphExchange_async_setup get_dependency self))
     = [''send_email'', ''get_messages'', ''create_calendar_event'']"
  by (simp add: GraphExchange_async_setup_def)

subsection \<open>Sending messages\<close>

text \<open>
  Claim C7, as stated, fails for the Slack plugin: a request without
  \<open>message\<close> is posted to the webhook with an empty text and answered with
  \<open>sent\<close>.
\<close>

theorem C7_slack_posts_without_message_counterexample:
  "Slack_send_message (http_answering 200 ''ok'')
     \<lparr> domain = ''slack'', config = [(''webhook_url'', PStr ''https://hooks.slack.test/T1'')] \<rparr> []
   = (Inr [(''status'', PStr ''sent''), (''channel'', PStr ''#general'')],
      [\<lparr> rq_verb = ''POST'', rq_url = PStr ''https://hooks.slack.test/T1'',
         rq_json = Some (PDict [(''channel'', PStr ''#general''), (''text'', PStr ''''),
                                (''username'', PStr ''faneX-ID''),
                                (''icon_emoji'', PStr '':robot_face:'')]),
         rq_params = None, rq_headers = None, rq_timeout = PInt 10 \<rparr>])"
  by (simp add: Slack_send_message_def http_answering_def dict_get_def dict_get_default_def py_or_def Let_def
        raise_for_status_def)

text \<open>
  Claim C7, amended. Mattermost's \<open>send_message\<close> raises for every request
  whose \<open>message\<close> is missing or falsy, and makes no request. (Slack's
  \<open>send_message\<close> treats \<open>message\<close> as optional, with the empty text as
  default.)
\<close>

theorem C7_mattermost_requires_message:
  "\<not> truthy (dict_get data ''message'') \<Longrightarrow>
   \<exists>e. Mattermost_send_message lib http self data = (Inl e, [])"
  using get_default_falsy[of data "''message''"]
  by (auto simp add: Mattermost_send_message_def split: sum.splits)

text \<open>A configured Mattermost plugin and a request with a channel only.\<close>

theorem C7_mattermost_requires_message_witness:
  "\<not> truthy (dict_get [(''channel_id'', PStr ''town-square'')] ''message'') \<and>
   Mattermost_send_message json_empty_object (http_answering 201 ''ok'')
     \<lparr> domain = ''mattermost'',
       config = [(''server_url'', PStr ''https://chat.test''), (''api_token'', PStr ''tok'')] \<rparr>
     [(''channel_id'', PStr ''town-square'')]
   = (Inl (ValueError ''channel_id and message required''), [])"
  using C7_mattermost_requires_message[of "[(''channel_id'', PStr ''town-square'')]" json_empty_object "http_answering 201 ''ok''"
     "\<lparr> domain = ''mattermost'',
       config = [(''server_url'', PStr ''https://chat.test''), (''api_token'', PStr ''tok'')] \<rparr>"]
  by (simp add: Mattermost_send_message_def Mattermost_get_base_url_def dict_get_def dict_get_default_def rstrip_slash_def)

subsection \<open>The generic webhook\<close>






subsection \<open>The Docker client cache\<close>







subsection \<open>Recovering JSON from the response text\<close>























end
